theory Spec2Isabelle
  imports Main
begin

section \<open>Storage, allocators and element lifetimes\<close>

text \<open>
  Both containers of the repository (\<^verbatim>\<open>ArrayOf\<close> in \<^verbatim>\<open>array_of.hpp\<close>,
  \<^verbatim>\<open>CollectionOf\<close> in \<^verbatim>\<open>collection_of.hpp\<close>) hold a raw pointer into
  storage obtained from an allocator, and a length. The storage is modelled by an
  explicit heap:
  \<^item> an address is a natural number, counted in slots of the element type \<open>T\<close>, so
    that \<^verbatim>\<open>ptr_ + i\<close> and \<^verbatim>\<open>&ptr_[i]\<close> are the pointer plus \<open>i\<close>; address \<open>0\<close>
    is \<^verbatim>\<open>nullptr\<close>;
  \<^item> \<open>mem\<close> gives the live object of a slot, \<open>None\<close> for a slot holding no live
    object (raw, destroyed, released or never allocated);
  \<^item> \<open>blocks\<close> gives the size of every block that is allocated and not yet released;
  \<^item> \<open>log\<close> records every allocation, deallocation, and every construction and
    destruction of an object in a slot, in program order (temporaries on the stack are
    not recorded);
  \<^item> \<open>throw_after\<close> decides when a constructor of \<open>T\<close> throws: \<open>Some k\<close> lets the
    next \<open>k\<close> constructions succeed and makes the one after them throw, \<open>None\<close>
    means that no construction throws;
  \<^item> \<open>avail\<close> is the number of slots the allocators can still hand out; a larger
    request throws \<^verbatim>\<open>std::bad_alloc\<close>.
  \<^verbatim>\<open>std::size_t\<close> is modelled by \<open>nat\<close>: the code does no arithmetic on sizes
  that a claim depends on.
\<close>

type_synonym addr = nat

type_synonym allocator = nat

definition nullptr :: addr where
  "nullptr = 0"

definition std_allocator :: allocator where
  "std_allocator = 0"

datatype error = BadAlloc | OutOfRange | ElementFailure

datatype event =
    Allocate allocator addr nat
  | Deallocate allocator addr nat
  | Construct addr
  | Destroy addr

record 'a world =
  mem :: "addr \<Rightarrow> 'a option"
  blocks :: "addr \<Rightarrow> nat option"
  brk :: addr
  avail :: nat
  throw_after :: "nat option"
  log :: "event list"

text \<open>
  \<^verbatim>\<open>alloc.allocate(n)\<close>: a fresh block of \<open>n\<close> slots holding no object. The
  allocators share one address space and hand out blocks upwards from \<open>brk\<close>, with
  one unused slot between two blocks, so a block never starts at \<^verbatim>\<open>nullptr\<close> and
  the slot after its end is not part of another block.
\<close>

definition allocate :: "allocator \<Rightarrow> nat \<Rightarrow> 'a world \<Rightarrow> (error + addr) \<times> 'a world" where
  "allocate al n w =
     (if avail w < n then (Inl BadAlloc, w)
      else (Inr (Suc (brk w)),
            w\<lparr>blocks := (blocks w)(Suc (brk w) \<mapsto> n),
               brk := Suc (brk w) + n,
               avail := avail w - n,
               log := log w @ [Allocate al (Suc (brk w)) n]\<rparr>))"

text \<open>
  \<^verbatim>\<open>alloc.deallocate(p, n)\<close>: the block is released; objects still in it end
  with their storage, without a destructor call.
\<close>

definition deallocate :: "allocator \<Rightarrow> addr \<Rightarrow> nat \<Rightarrow> 'a world \<Rightarrow> 'a world" where
  "deallocate al p n w =
     w\<lparr>mem := (\<lambda>a. if p \<le> a \<and> a < p + n then None else mem w a),
       blocks := (blocks w)(p := None),
       avail := avail w + n,
       log := log w @ [Deallocate al p n]\<rparr>"

text \<open>
  Constructing an object of \<open>T\<close> with value \<open>v\<close> in the slot at \<open>a\<close>
  (\<^verbatim>\<open>::new (a) T(...)\<close>); it throws when \<open>throw_after\<close> has run out.
\<close>

definition construct_at :: "addr \<Rightarrow> 'a \<Rightarrow> 'a world \<Rightarrow> (error + unit) \<times> 'a world" where
  "construct_at a v w =
     (if throw_after w = Some 0 then (Inl ElementFailure, w)
      else (Inr (),
            w\<lparr>mem := (mem w)(a \<mapsto> v),
               throw_after := map_option (\<lambda>k. k - 1) (throw_after w),
               log := log w @ [Construct a]\<rparr>))"

text \<open>The destructor call \<^verbatim>\<open>a->~T()\<close>.\<close>

definition destroy_at :: "addr \<Rightarrow> 'a world \<Rightarrow> 'a world" where
  "destroy_at a w = w\<lparr>mem := (mem w)(a := None), log := log w @ [Destroy a]\<rparr>"

text \<open>
  Destroying the \<open>k\<close> objects from \<open>first\<close> on, in increasing order of address: the
  destructor loop of \<^verbatim>\<open>CollectionOf\<close> and the clean-up of
  \<^verbatim>\<open>std::uninitialized_fill_n\<close>.
\<close>

fun destroy_n :: "addr \<Rightarrow> nat \<Rightarrow> 'a world \<Rightarrow> 'a world" where
  "destroy_n first 0 w = w"
| "destroy_n first (Suc k) w = destroy_n (Suc first) k (destroy_at first w)"

subsection \<open>The algorithms of the standard library that the containers call\<close>

text \<open>
  \<^verbatim>\<open>std::uninitialized_fill_n(first, n, v)\<close> copy-constructs \<open>v\<close> into the \<open>n\<close> slots
  from \<open>first\<close> on, in order. When a construction throws, the objects it has
  constructed so far are destroyed and the exception is thrown on. The argument
  \<open>first\<close> is kept for that clean-up while \<open>cur\<close> advances.
\<close>

fun uninit_fill_from :: "addr \<Rightarrow> addr \<Rightarrow> nat \<Rightarrow> 'a \<Rightarrow> 'a world \<Rightarrow> (error + unit) \<times> 'a world" where
  "uninit_fill_from first cur 0 v w = (Inr (), w)"
| "uninit_fill_from first cur (Suc k) v w =
     (case construct_at cur v w of
        (Inl e, w') \<Rightarrow> (Inl e, destroy_n first (cur - first) w')
      | (Inr u, w') \<Rightarrow> uninit_fill_from first (Suc cur) k v w')"

definition uninitialized_fill_n :: "addr \<Rightarrow> nat \<Rightarrow> 'a \<Rightarrow> 'a world \<Rightarrow> (error + unit) \<times> 'a world" where
  "uninitialized_fill_n first n v w = uninit_fill_from first first n v w"

text \<open>
  \<^verbatim>\<open>std::equal(first1, last1, first2)\<close>, the overload with three iterators: it
  compares the \<open>last1 - first1\<close> objects from \<open>first1\<close> on with the objects from
  \<open>first2\<close> on and never looks at the length of the second range. Reading a slot that
  holds no live object is undefined behaviour: the result is \<open>None\<close>. Elements are
  compared by \<open>=\<close>; the comparison of two elements is taken not to throw.
\<close>

fun equal_n :: "addr \<Rightarrow> nat \<Rightarrow> addr \<Rightarrow> 'a world \<Rightarrow> bool option" where
  "equal_n p 0 q w = Some True"
| "equal_n p (Suc k) q w =
     (case (mem w p, mem w q) of
        (Some x, Some y) \<Rightarrow> if x = y then equal_n (Suc p) k (Suc q) w else Some False
      | _ \<Rightarrow> None)"

definition std_equal :: "addr \<Rightarrow> addr \<Rightarrow> addr \<Rightarrow> 'a world \<Rightarrow> bool option" where
  "std_equal first1 last1 first2 w = equal_n first1 (last1 - first1) first2 w"

text \<open>
  \<^verbatim>\<open>std::swap_ranges(first1, last1, first2)\<close> exchanges the objects of the two
  ranges slot by slot; it is undefined (\<open>None\<close>) when a slot it touches holds no live
  object. The moves of the elements are taken not to throw.
\<close>

fun swap_n :: "addr \<Rightarrow> nat \<Rightarrow> addr \<Rightarrow> 'a world \<Rightarrow> 'a world option" where
  "swap_n p 0 q w = Some w"
| "swap_n p (Suc k) q w =
     (case (mem w p, mem w q) of
        (Some x, Some y) \<Rightarrow> swap_n (Suc p) k (Suc q) (w\<lparr>mem := (mem w)(p \<mapsto> y, q \<mapsto> x)\<rparr>)
      | _ \<Rightarrow> None)"

definition swap_ranges :: "addr \<Rightarrow> addr \<Rightarrow> addr \<Rightarrow> 'a world \<Rightarrow> 'a world option" where
  "swap_ranges first1 last1 first2 w = swap_n first1 (last1 - first1) first2 w"

section \<open>ArrayOf\<close>

text \<open>
  \<^verbatim>\<open>struct Deleter { Alloc alloc; }\<close>: both containers declare a nested struct of
  this shape; the two call operators differ and are defined with their containers.
\<close>

record Deleter =
  alloc :: allocator

text \<open>
  The members \<^verbatim>\<open>length_\<close>, \<^verbatim>\<open>ptr_\<close> and \<^verbatim>\<open>d_\<close> are the fields
  \<open>a_length\<close>, \<open>a_ptr\<close> and \<open>a_d\<close> of \<open>ArrayOf\<close>, and \<open>c_length\<close>, \<open>c_ptr\<close> and
  \<open>c_d\<close> of \<open>CollectionOf\<close>.
\<close>

record ArrayOf =
  a_length :: nat
  a_ptr :: addr
  a_d :: Deleter

text \<open>
  \<^verbatim>\<open>void operator()(T* ptr, size_type n) { if (ptr) alloc.deallocate(ptr, n); }\<close>
\<close>

definition ArrayOf_Deleter_call :: "Deleter \<Rightarrow> addr \<Rightarrow> nat \<Rightarrow> 'a world \<Rightarrow> 'a world" where
  "ArrayOf_Deleter_call d ptr n w = (if ptr \<noteq> nullptr then deallocate (alloc d) ptr n w else w)"

text \<open>
  \<^verbatim>\<open>ArrayOf(size_type length, const value_type& v, const allocator_type& alloc)\<close>:
  the members \<^verbatim>\<open>length_\<close> and \<^verbatim>\<open>d_\<close> are initialised, the body allocates and
  fills. The body has no handler: an exception of \<^verbatim>\<open>allocate\<close> or of the fill
  leaves the constructor as it is thrown, and no object exists afterwards (\<open>Inl\<close>), so
  the destructor of \<^verbatim>\<open>ArrayOf\<close> never runs for it.
\<close>

definition ArrayOf_ctor :: "nat \<Rightarrow> 'a \<Rightarrow> allocator \<Rightarrow> 'a world \<Rightarrow> (error + ArrayOf) \<times> 'a world" where
  "ArrayOf_ctor n v al w =
     (case allocate al n w of
        (Inl e, w1) \<Rightarrow> (Inl e, w1)
      | (Inr p, w1) \<Rightarrow>
          (case uninitialized_fill_n p n v w1 of
             (Inl e, w2) \<Rightarrow> (Inl e, w2)
           | (Inr u, w2) \<Rightarrow> (Inr \<lparr>a_length = n, a_ptr = p, a_d = \<lparr>alloc = al\<rparr>\<rparr>, w2)))"

text \<open>
  The call \<^verbatim>\<open>ArrayOf(length)\<close> uses the default arguments \<^verbatim>\<open>value_type{}\<close>
  (here \<open>dflt\<close>) and \<^verbatim>\<open>allocator_type{}\<close>, the default allocator
  \<open>std_allocator\<close>.
\<close>

definition ArrayOf_ctor_length :: "'a \<Rightarrow> nat \<Rightarrow> 'a world \<Rightarrow> (error + ArrayOf) \<times> 'a world" where
  "ArrayOf_ctor_length dflt n w = ArrayOf_ctor n dflt std_allocator w"

text \<open>
  \<^verbatim>\<open>ArrayOf(size_type length, const allocator_type& alloc)
      : ArrayOf(length_, value_type{}, alloc) {}\<close>
  The delegating call passes the member \<^verbatim>\<open>length_\<close>, not the parameter
  \<^verbatim>\<open>length\<close>. No member is initialised before the target constructor runs, so the
  value read is indeterminate: it is the parameter \<open>indeterminate\<close> of the model, and
  the parameter \<open>n\<close> (the requested length) is not used.
\<close>

definition ArrayOf_ctor_alloc :: "nat \<Rightarrow> 'a \<Rightarrow> nat \<Rightarrow> allocator \<Rightarrow> 'a world \<Rightarrow> (error + ArrayOf) \<times> 'a world" where
  "ArrayOf_ctor_alloc indeterminate dflt n al w = ArrayOf_ctor indeterminate dflt al w"

text \<open>
  \<^verbatim>\<open>ArrayOf(size_type length, const value_type& v)
      : ArrayOf(length, v, std::allocator<T>()) {}\<close>
\<close>

definition ArrayOf_ctor_value :: "nat \<Rightarrow> 'a \<Rightarrow> 'a world \<Rightarrow> (error + ArrayOf) \<times> 'a world" where
  "ArrayOf_ctor_value n v w = ArrayOf_ctor n v std_allocator w"

text \<open>
  \<^verbatim>\<open>ArrayOf& operator=(ArrayOf&& other) {
    std::swap(length_, other.length_);
    std::swap(ptr_, other.ptr_);
    d_ = Deleter(other.d_.alloc);
    return *this;
  }\<close>
  The result is the pair of \<^verbatim>\<open>*this\<close> and \<^verbatim>\<open>other\<close> after the call, one line
  of the definition for each statement. The function takes no heap: it neither
  allocates nor touches a slot. An object assigned to itself is the case where
  \<open>this\<close> and \<open>other\<close> are the same value.
\<close>

definition ArrayOf_move_assign :: "ArrayOf \<Rightarrow> ArrayOf \<Rightarrow> ArrayOf \<times> ArrayOf" where
  "ArrayOf_move_assign this other =
     (let (this1, other1) = (this\<lparr>a_length := a_length other\<rparr>, other\<lparr>a_length := a_length this\<rparr>);
          (this2, other2) = (this1\<lparr>a_ptr := a_ptr other1\<rparr>, other1\<lparr>a_ptr := a_ptr this1\<rparr>);
          this3 = this2\<lparr>a_d := \<lparr>alloc = alloc (a_d other2)\<rparr>\<rparr>
      in (this3, other2))"

text \<open>
  \<^verbatim>\<open>ArrayOf(ArrayOf&& other)\<close> is written with the three statements of the move
  assignment as its body and no member initialiser. The member \<^verbatim>\<open>d_\<close> has no
  default member initialiser either, and \<^verbatim>\<open>Deleter\<close> declares the one constructor
  \<^verbatim>\<open>explicit Deleter(const allocator_type&)\<close>, so it has no default constructor:
  the member cannot be initialised, the constructor is ill-formed, and no program
  can move-construct an \<^verbatim>\<open>ArrayOf\<close>. There is no function to define for it.
\<close>

text \<open>\<^verbatim>\<open>~ArrayOf() { d_(ptr_, length_); }\<close>: no destructor of an element is called.\<close>

definition ArrayOf_dtor :: "ArrayOf \<Rightarrow> 'a world \<Rightarrow> 'a world" where
  "ArrayOf_dtor a w = ArrayOf_Deleter_call (a_d a) (a_ptr a) (a_length a) w"

text \<open>
  Element access. A reference to a slot is the address of the slot. \<^verbatim>\<open>RangeCheck\<close>
  throws \<^verbatim>\<open>std::out_of_range\<close>; \<^verbatim>\<open>operator[]\<close> checks nothing.
\<close>

definition ArrayOf_RangeCheck :: "ArrayOf \<Rightarrow> nat \<Rightarrow> error + unit" where
  "ArrayOf_RangeCheck a n = (if n \<ge> a_length a then Inl OutOfRange else Inr ())"

definition ArrayOf_at :: "ArrayOf \<Rightarrow> nat \<Rightarrow> error + addr" where
  "ArrayOf_at a n = (case ArrayOf_RangeCheck a n of Inl e \<Rightarrow> Inl e | Inr u \<Rightarrow> Inr (a_ptr a + n))"

definition ArrayOf_index :: "ArrayOf \<Rightarrow> nat \<Rightarrow> addr" where
  "ArrayOf_index a n = a_ptr a + n"

definition ArrayOf_data :: "ArrayOf \<Rightarrow> addr" where
  "ArrayOf_data a = a_ptr a"

definition ArrayOf_begin :: "ArrayOf \<Rightarrow> addr" where
  "ArrayOf_begin a = a_ptr a"

definition ArrayOf_end :: "ArrayOf \<Rightarrow> addr" where
  "ArrayOf_end a = a_ptr a + a_length a"

definition ArrayOf_length :: "ArrayOf \<Rightarrow> nat" where
  "ArrayOf_length a = a_length a"

text \<open>\<^verbatim>\<open>void fill(const value_type& v) { std::uninitialized_fill_n(ptr_, length_, v); }\<close>\<close>

definition ArrayOf_fill :: "'a \<Rightarrow> ArrayOf \<Rightarrow> 'a world \<Rightarrow> (error + unit) \<times> 'a world" where
  "ArrayOf_fill v a w = uninitialized_fill_n (a_ptr a) (a_length a) v w"

text \<open>
  \<^verbatim>\<open>void swap(ArrayOf&& other) { std::swap_ranges(begin(), end(), other.begin()); }\<close>
\<close>

definition ArrayOf_swap :: "ArrayOf \<Rightarrow> ArrayOf \<Rightarrow> 'a world \<Rightarrow> 'a world option" where
  "ArrayOf_swap a other w = swap_ranges (ArrayOf_begin a) (ArrayOf_end a) (ArrayOf_begin other) w"

text \<open>
  \<^verbatim>\<open>operator==\<close>: \<^verbatim>\<open>std::equal(lhs.begin(), lhs.end(), rhs.begin())\<close>, and
  \<^verbatim>\<open>operator!=\<close>, its negation.
\<close>

definition ArrayOf_eq :: "ArrayOf \<Rightarrow> ArrayOf \<Rightarrow> 'a world \<Rightarrow> bool option" where
  "ArrayOf_eq lhs rhs w = std_equal (ArrayOf_begin lhs) (ArrayOf_end lhs) (ArrayOf_begin rhs) w"

definition ArrayOf_neq :: "ArrayOf \<Rightarrow> ArrayOf \<Rightarrow> 'a world \<Rightarrow> bool option" where
  "ArrayOf_neq lhs rhs w = map_option Not (ArrayOf_eq lhs rhs w)"

section \<open>CollectionOf\<close>

record CollectionOf =
  c_length :: nat
  c_ptr :: addr
  c_d :: Deleter

text \<open>
  \<^verbatim>\<open>void operator()(T* ptr, size_type n) { alloc.deallocate(ptr, n); }\<close>: the deleter
  of \<^verbatim>\<open>CollectionOf\<close> has no null check.
\<close>

definition CollectionOf_Deleter_call :: "Deleter \<Rightarrow> addr \<Rightarrow> nat \<Rightarrow> 'a world \<Rightarrow> 'a world" where
  "CollectionOf_Deleter_call d ptr n w = deallocate (alloc d) ptr n w"

text \<open>The constructor allocates and constructs no element.\<close>

definition CollectionOf_ctor :: "nat \<Rightarrow> allocator \<Rightarrow> 'a world \<Rightarrow> (error + CollectionOf) \<times> 'a world" where
  "CollectionOf_ctor n al w =
     (case allocate al n w of
        (Inl e, w1) \<Rightarrow> (Inl e, w1)
      | (Inr p, w1) \<Rightarrow> (Inr \<lparr>c_length = n, c_ptr = p, c_d = \<lparr>alloc = al\<rparr>\<rparr>, w1))"

text \<open>
  \<^verbatim>\<open>template <typename... Args> void construct(Args&&... args) {
    for (size_type i = 0; i < length_; ++i)
      ::new (ptr_ + i) T(std::forward<Args>(args)...);
  }\<close>
  The same argument objects are forwarded in every round, and
  \<^verbatim>\<open>std::forward\<close> passes an argument that was given as an rvalue as an rvalue
  again, so a constructor of \<open>T\<close> may move from it. A constructor of \<open>T\<close> is
  therefore a function from the arguments to the constructed value and the arguments
  as it leaves them; the loop threads the arguments through its rounds. When a
  construction throws, the exception leaves the loop and the function, and the slots
  constructed before it stay constructed.
\<close>

fun construct_from :: "('args \<Rightarrow> 'a \<times> 'args) \<Rightarrow> 'args \<Rightarrow> addr \<Rightarrow> nat \<Rightarrow> 'a world \<Rightarrow> (error + unit) \<times> 'a world" where
  "construct_from T args p 0 w = (Inr (), w)"
| "construct_from T args p (Suc k) w =
     (case T args of (v, args') \<Rightarrow>
        (case construct_at p v w of
           (Inl e, w') \<Rightarrow> (Inl e, w')
         | (Inr u, w') \<Rightarrow> construct_from T args' (Suc p) k w'))"

definition CollectionOf_construct :: "('args \<Rightarrow> 'a \<times> 'args) \<Rightarrow> 'args \<Rightarrow> CollectionOf \<Rightarrow> 'a world \<Rightarrow> (error + unit) \<times> 'a world" where
  "CollectionOf_construct T args c w = construct_from T args (c_ptr c) (c_length c) w"

text \<open>
  \<^verbatim>\<open>~CollectionOf() {
    for (size_type i = 0; i < n; ++i) { ptr[i].~T(); }
    d_(ptr_, length_);
  }\<close>
  The loop names \<^verbatim>\<open>n\<close> and \<^verbatim>\<open>ptr\<close>. The class has no such members (they are
  \<^verbatim>\<open>length_\<close> and \<^verbatim>\<open>ptr_\<close>; \<^verbatim>\<open>n\<close> and \<^verbatim>\<open>ptr\<close> are the parameters of the
  deleter's call operator, not in scope here), so the two names mean whatever the
  enclosing scope declares under them: they are parameters of the model.
\<close>

definition CollectionOf_dtor :: "nat \<Rightarrow> addr \<Rightarrow> CollectionOf \<Rightarrow> 'a world \<Rightarrow> 'a world" where
  "CollectionOf_dtor n ptr c w =
     CollectionOf_Deleter_call (c_d c) (c_ptr c) (c_length c) (destroy_n ptr n w)"

definition CollectionOf_RangeCheck :: "CollectionOf \<Rightarrow> nat \<Rightarrow> error + unit" where
  "CollectionOf_RangeCheck c n = (if n \<ge> c_length c then Inl OutOfRange else Inr ())"

definition CollectionOf_at :: "CollectionOf \<Rightarrow> nat \<Rightarrow> error + addr" where
  "CollectionOf_at c n =
     (case CollectionOf_RangeCheck c n of Inl e \<Rightarrow> Inl e | Inr u \<Rightarrow> Inr (c_ptr c + n))"

definition CollectionOf_index :: "CollectionOf \<Rightarrow> nat \<Rightarrow> addr" where
  "CollectionOf_index c n = c_ptr c + n"

definition CollectionOf_data :: "CollectionOf \<Rightarrow> addr" where
  "CollectionOf_data c = c_ptr c"

definition CollectionOf_begin :: "CollectionOf \<Rightarrow> addr" where
  "CollectionOf_begin c = c_ptr c"

definition CollectionOf_end :: "CollectionOf \<Rightarrow> addr" where
  "CollectionOf_end c = c_ptr c + c_length c"

definition CollectionOf_length :: "CollectionOf \<Rightarrow> nat" where
  "CollectionOf_length c = c_length c"

definition CollectionOf_eq :: "CollectionOf \<Rightarrow> CollectionOf \<Rightarrow> 'a world \<Rightarrow> bool option" where
  "CollectionOf_eq lhs rhs w =
     std_equal (CollectionOf_begin lhs) (CollectionOf_end lhs) (CollectionOf_begin rhs) w"

definition CollectionOf_neq :: "CollectionOf \<Rightarrow> CollectionOf \<Rightarrow> 'a world \<Rightarrow> bool option" where
  "CollectionOf_neq lhs rhs w = map_option Not (CollectionOf_eq lhs rhs w)"

section \<open>Calls as a client sees them\<close>

text \<open>
  A client holds two containers and the heap. A call of a public member function on
  the first container (with the second as the other operand, where there is one) gives
  what the call returns or throws and the three afterwards; the result is \<open>None\<close>
  when the call has undefined behaviour. Only the move assignment of \<^verbatim>\<open>ArrayOf\<close>
  assigns to members of the containers; \<^verbatim>\<open>fill\<close>, \<^verbatim>\<open>swap\<close> and \<^verbatim>\<open>construct\<close> write to slots of
  the heap through \<^verbatim>\<open>ptr_\<close>; the other functions only read.
\<close>

datatype ret = Ref addr | Num nat | Truth bool | Void

datatype 'a ArrayOf_op =
    Call_fill 'a
  | Call_swap
  | Call_at nat
  | Call_index nat
  | Call_data
  | Call_begin
  | Call_end
  | Call_length
  | Call_eq
  | Call_neq
  | Call_move_assign

fun ArrayOf_call ::
  "'a ArrayOf_op \<Rightarrow> ArrayOf \<times> ArrayOf \<times> 'a world \<Rightarrow>
     ((error + ret) \<times> ArrayOf \<times> ArrayOf \<times> 'a world) option" where
  "ArrayOf_call (Call_fill v) (a, b, w) =
     (case ArrayOf_fill v a w of
        (Inl e, w') \<Rightarrow> Some (Inl e, a, b, w')
      | (Inr u, w') \<Rightarrow> Some (Inr Void, a, b, w'))"
| "ArrayOf_call Call_swap (a, b, w) =
     (case ArrayOf_swap a b w of None \<Rightarrow> None | Some w' \<Rightarrow> Some (Inr Void, a, b, w'))"
| "ArrayOf_call (Call_at n) (a, b, w) =
     (case ArrayOf_at a n of
        Inl e \<Rightarrow> Some (Inl e, a, b, w)
      | Inr r \<Rightarrow> Some (Inr (Ref r), a, b, w))"
| "ArrayOf_call (Call_index n) (a, b, w) = Some (Inr (Ref (ArrayOf_index a n)), a, b, w)"
| "ArrayOf_call Call_data (a, b, w) = Some (Inr (Ref (ArrayOf_data a)), a, b, w)"
| "ArrayOf_call Call_begin (a, b, w) = Some (Inr (Ref (ArrayOf_begin a)), a, b, w)"
| "ArrayOf_call Call_end (a, b, w) = Some (Inr (Ref (ArrayOf_end a)), a, b, w)"
| "ArrayOf_call Call_length (a, b, w) = Some (Inr (Num (ArrayOf_length a)), a, b, w)"
| "ArrayOf_call Call_eq (a, b, w) =
     (case ArrayOf_eq a b w of None \<Rightarrow> None | Some r \<Rightarrow> Some (Inr (Truth r), a, b, w))"
| "ArrayOf_call Call_neq (a, b, w) =
     (case ArrayOf_neq a b w of None \<Rightarrow> None | Some r \<Rightarrow> Some (Inr (Truth r), a, b, w))"
| "ArrayOf_call Call_move_assign (a, b, w) =
     (case ArrayOf_move_assign a b of (a', b') \<Rightarrow> Some (Inr Void, a', b', w))"

datatype 'args CollectionOf_op =
    CCall_construct 'args
  | CCall_at nat
  | CCall_index nat
  | CCall_data
  | CCall_begin
  | CCall_end
  | CCall_length
  | CCall_eq
  | CCall_neq

fun CollectionOf_call ::
  "('args \<Rightarrow> 'a \<times> 'args) \<Rightarrow> 'args CollectionOf_op \<Rightarrow> CollectionOf \<times> CollectionOf \<times> 'a world \<Rightarrow>
     ((error + ret) \<times> CollectionOf \<times> CollectionOf \<times> 'a world) option" where
  "CollectionOf_call T (CCall_construct args) (c, d, w) =
     (case CollectionOf_construct T args c w of
        (Inl e, w') \<Rightarrow> Some (Inl e, c, d, w')
      | (Inr u, w') \<Rightarrow> Some (Inr Void, c, d, w'))"
| "CollectionOf_call T (CCall_at n) (c, d, w) =
     (case CollectionOf_at c n of
        Inl e \<Rightarrow> Some (Inl e, c, d, w)
      | Inr r \<Rightarrow> Some (Inr (Ref r), c, d, w))"
| "CollectionOf_call T (CCall_index n) (c, d, w) = Some (Inr (Ref (CollectionOf_index c n)), c, d, w)"
| "CollectionOf_call T CCall_data (c, d, w) = Some (Inr (Ref (CollectionOf_data c)), c, d, w)"
| "CollectionOf_call T CCall_begin (c, d, w) = Some (Inr (Ref (CollectionOf_begin c)), c, d, w)"
| "CollectionOf_call T CCall_end (c, d, w) = Some (Inr (Ref (CollectionOf_end c)), c, d, w)"
| "CollectionOf_call T CCall_length (c, d, w) = Some (Inr (Num (CollectionOf_length c)), c, d, w)"
| "CollectionOf_call T CCall_eq (c, d, w) =
     (case CollectionOf_eq c d w of None \<Rightarrow> None | Some r \<Rightarrow> Some (Inr (Truth r), c, d, w))"
| "CollectionOf_call T CCall_neq (c, d, w) =
     (case CollectionOf_neq c d w of None \<Rightarrow> None | Some r \<Rightarrow> Some (Inr (Truth r), c, d, w))"

section \<open>Notions used to state the properties\<close>

text \<open>
  The elements of a container as \<^verbatim>\<open>operator[]\<close> reaches them, slot \<open>0\<close> first;
  \<open>None\<close> stands for a slot without a live object.
\<close>

definition ArrayOf_values :: "ArrayOf \<Rightarrow> 'a world \<Rightarrow> 'a option list" where
  "ArrayOf_values a w = map (\<lambda>i. mem w (ArrayOf_index a i)) [0..<ArrayOf_length a]"

definition CollectionOf_values :: "CollectionOf \<Rightarrow> 'a world \<Rightarrow> 'a option list" where
  "CollectionOf_values c w = map (\<lambda>i. mem w (CollectionOf_index c i)) [0..<CollectionOf_length c]"

text \<open>The next \<open>k\<close> constructions of an element all succeed.\<close>

definition may_construct :: "nat \<Rightarrow> 'a world \<Rightarrow> bool" where
  "may_construct k w = (case throw_after w of None \<Rightarrow> True | Some t \<Rightarrow> k \<le> t)"

text \<open>The heap after \<open>k\<close> successful constructions of \<open>v\<close> in the slots from \<open>p\<close> on.\<close>

definition filled :: "addr \<Rightarrow> nat \<Rightarrow> 'a \<Rightarrow> 'a world \<Rightarrow> 'a world" where
  "filled p k v w =
     w\<lparr>mem := (\<lambda>a. if p \<le> a \<and> a < p + k then Some v else mem w a),
       throw_after := map_option (\<lambda>t. t - k) (throw_after w),
       log := log w @ map Construct [p..<p + k]\<rparr>"

text \<open>
  A heap on which nothing has happened: \<open>cap\<close> slots can be allocated, and \<open>t\<close> is the
  initial \<open>throw_after\<close>.
\<close>

definition empty_world :: "nat \<Rightarrow> nat option \<Rightarrow> 'a world" where
  "empty_world cap t =
     \<lparr>mem = (\<lambda>a. None), blocks = (\<lambda>a. None), brk = 0, avail = cap, throw_after = t, log = []\<rparr>"

text \<open>
  Two constructors of element types, as functions from the arguments to the value and
  the arguments afterwards: \<^verbatim>\<open>int(const int&)\<close> copies and leaves its argument
  alone; the move constructor \<^verbatim>\<open>std::unique_ptr<X>(std::unique_ptr<X>&&)\<close> takes
  the pointer and leaves \<^verbatim>\<open>nullptr\<close> in its argument.
\<close>

definition int_copy :: "int \<Rightarrow> int \<times> int" where
  "int_copy x = (x, x)"

definition unique_ptr_move :: "addr \<Rightarrow> addr \<times> addr" where
  "unique_ptr_move p = (p, nullptr)"

section \<open>Scenarios\<close>

text \<open>
  The scenario \<^verbatim>\<open>ArrayOf<int>(3, 5)\<close> followed by \<^verbatim>\<open>ArrayOf<int>(4, 5)\<close>
  on a heap where no constructor throws. Each constant is the result of the
  constructor call and the heap after it.
\<close>

definition array_3_5 :: "(error + ArrayOf) \<times> int world" where
  "array_3_5 = ArrayOf_ctor 3 5 std_allocator (empty_world 64 None)"

definition array_4_5 :: "(error + ArrayOf) \<times> int world" where
  "array_4_5 = ArrayOf_ctor 4 5 std_allocator (snd array_3_5)"

text \<open>
  The same with \<^verbatim>\<open>CollectionOf<int>\<close>: \<^verbatim>\<open>c3(3)\<close>, \<^verbatim>\<open>c3.construct(5)\<close>,
  \<^verbatim>\<open>c4(4)\<close>, \<^verbatim>\<open>c4.construct(5)\<close>.
\<close>

definition coll_3 :: "(error + CollectionOf) \<times> int world" where
  "coll_3 = CollectionOf_ctor 3 std_allocator (empty_world 64 None)"

definition coll_3_5 :: "(error + unit) \<times> int world" where
  "coll_3_5 = CollectionOf_construct int_copy 5 (projr (fst coll_3)) (snd coll_3)"

definition coll_4 :: "(error + CollectionOf) \<times> int world" where
  "coll_4 = CollectionOf_ctor 4 std_allocator (snd coll_3_5)"

definition coll_4_5 :: "(error + unit) \<times> int world" where
  "coll_4_5 = CollectionOf_construct int_copy 5 (projr (fst coll_4)) (snd coll_4)"

text \<open>
  Two arrays with allocators of their own, \<^verbatim>\<open>a(3, 5, alloc1)\<close> and
  \<^verbatim>\<open>b(4, 5, alloc2)\<close>, where the two allocator objects are the allocators \<open>1\<close>
  and \<open>2\<close>.
\<close>

definition array_alloc1 :: "(error + ArrayOf) \<times> int world" where
  "array_alloc1 = ArrayOf_ctor 3 5 1 (empty_world 64 None)"

definition array_alloc2 :: "(error + ArrayOf) \<times> int world" where
  "array_alloc2 = ArrayOf_ctor 4 5 2 (snd array_alloc1)"

text \<open>
  \<^verbatim>\<open>ArrayOf<T>(3, v)\<close> for an element type whose second copy construction
  throws.
\<close>

definition throwing_ctor :: "(error + ArrayOf) \<times> int world" where
  "throwing_ctor = ArrayOf_ctor 3 5 std_allocator (empty_world 64 (Some 1))"

text \<open>
  The round trip of the specification: \<^verbatim>\<open>CollectionOf<int> c(5)\<close> and
  \<^verbatim>\<open>c.construct(42)\<close>.
\<close>

definition coll_5 :: "(error + CollectionOf) \<times> int world" where
  "coll_5 = CollectionOf_ctor 5 std_allocator (empty_world 64 None)"

definition coll_5_42 :: "(error + unit) \<times> int world" where
  "coll_5_42 = CollectionOf_construct int_copy 42 (projr (fst coll_5)) (snd coll_5)"

text \<open>
  \<^verbatim>\<open>CollectionOf<std::unique_ptr<X>> c(2)\<close> and
  \<^verbatim>\<open>c.construct(std::unique_ptr<X>(p))\<close>, where \<open>p\<close> is the address \<open>7\<close>.
\<close>

definition coll_ptrs :: "(error + CollectionOf) \<times> addr world" where
  "coll_ptrs = CollectionOf_ctor 2 std_allocator (empty_world 64 None)"

definition coll_ptrs_moved :: "(error + unit) \<times> addr world" where
  "coll_ptrs_moved = CollectionOf_construct unique_ptr_move 7 (projr (fst coll_ptrs)) (snd coll_ptrs)"

text \<open>
  Two arrays of three elements, \<open>[1, 2, 3]\<close> in the block at \<open>1\<close> and \<open>[9, 8, 7]\<close>
  in the block at \<open>5\<close>.
\<close>

definition swap_a :: ArrayOf where
  "swap_a = \<lparr>a_length = 3, a_ptr = 1, a_d = \<lparr>alloc = std_allocator\<rparr>\<rparr>"

definition swap_b :: ArrayOf where
  "swap_b = \<lparr>a_length = 3, a_ptr = 5, a_d = \<lparr>alloc = std_allocator\<rparr>\<rparr>"

definition swap_world :: "int world" where
  "swap_world =
     \<lparr>mem = [1 \<mapsto> 1, 2 \<mapsto> 2, 3 \<mapsto> 3, 5 \<mapsto> 9, 6 \<mapsto> 8, 7 \<mapsto> 7],
      blocks = [1 \<mapsto> 3, 5 \<mapsto> 3],
      brk = 8, avail = 58, throw_after = None,
      log = [Allocate std_allocator 1 3, Construct 1, Construct 2, Construct 3,
             Allocate std_allocator 5 3, Construct 5, Construct 6, Construct 7]\<rparr>"

section \<open>Properties of the heap operations\<close>

lemma empty_range [simp]: "(p \<le> a \<and> a < (p::nat)) = False"
  by auto

lemma filled_0 [simp]: "filled p 0 v w = w"
  by (cases w, cases "throw_after w") (simp_all add: filled_def)

lemma destroy_n_eq:
  "destroy_n p k w =
     w\<lparr>mem := (\<lambda>a. if p \<le> a \<and> a < p + k then None else mem w a),
       log := log w @ map Destroy [p..<p + k]\<rparr>"
proof (induction k arbitrary: p w)
  case 0
  show ?case by (cases w) simp
next
  case (Suc k)
  have "[p..<p + Suc k] = p # [Suc p..<Suc p + k]"
    by (simp add: upt_rec)
  then show ?case
    by (simp add: Suc destroy_at_def fun_eq_iff)
qed

lemma construct_at_ok:
  "may_construct (Suc k) w \<Longrightarrow>
     construct_at a v w = (Inr (), filled a (Suc 0) v w) \<and> may_construct k (filled a (Suc 0) v w)"
  by (auto simp: construct_at_def filled_def may_construct_def fun_eq_iff split: option.splits)

lemma filled_filled:
  "filled (Suc p) k v (filled p (Suc 0) v w) = filled p (Suc k) v w"
proof -
  have "[p..<p + Suc k] = p # [Suc p..<Suc p + k]"
    by (simp add: upt_rec)
  then show ?thesis
    by (cases "throw_after w") (auto simp add: filled_def fun_eq_iff)
qed

lemma uninit_fill_from_ok:
  "may_construct k w \<Longrightarrow> uninit_fill_from first cur k v w = (Inr (), filled cur k v w)"
proof (induction k arbitrary: cur w)
  case 0
  show ?case by simp
next
  case (Suc k)
  from construct_at_ok [OF Suc.prems]
  have c: "construct_at cur v w = (Inr (), filled cur (Suc 0) v w)"
    and m: "may_construct k (filled cur (Suc 0) v w)" by simp_all
  show ?case
    by (simp add: c Suc.IH [OF m] filled_filled)
qed

lemma uninit_fill_from_throw:
  "throw_after w = Some t \<Longrightarrow> t < k \<Longrightarrow>
     uninit_fill_from first cur k v w =
       (Inl ElementFailure, destroy_n first (cur + t - first) (filled cur t v w))"
proof (induction k arbitrary: cur w t)
  case 0
  then show ?case by simp
next
  case (Suc k)
  show ?case
  proof (cases t)
    case 0
    with Suc.prems show ?thesis
      by (simp add: construct_at_def)
  next
    case (Suc t')
    with Suc.prems have mc: "may_construct (Suc t') w"
      by (simp add: may_construct_def)
    from construct_at_ok [OF mc]
    have c: "construct_at cur v w = (Inr (), filled cur (Suc 0) v w)" by simp
    have t: "throw_after (filled cur (Suc 0) v w) = Some t'"
      using Suc.prems Suc by (simp add: filled_def)
    have "t' < k" using Suc.prems Suc by simp
    from Suc.IH [OF t this, of "Suc cur"]
    show ?thesis
      by (simp add: c Suc filled_filled)
  qed
qed


lemma allocate_ok:
  "n \<le> avail w \<Longrightarrow>
     allocate al n w =
       (Inr (Suc (brk w)),
        w\<lparr>blocks := (blocks w)(Suc (brk w) \<mapsto> n), brk := Suc (brk w) + n,
          avail := avail w - n, log := log w @ [Allocate al (Suc (brk w)) n]\<rparr>)"
  by (simp add: allocate_def)

lemma allocate_fields:
  "n \<le> avail w \<Longrightarrow> throw_after (snd (allocate al n w)) = throw_after w"
  "n \<le> avail w \<Longrightarrow> mem (snd (allocate al n w)) = mem w"
  "n \<le> avail w \<Longrightarrow> log (snd (allocate al n w)) = log w @ [Allocate al (Suc (brk w)) n]"
  "n \<le> avail w \<Longrightarrow> blocks (snd (allocate al n w)) = (blocks w)(Suc (brk w) \<mapsto> n)"
  by (simp_all add: allocate_def)

lemma may_construct_allocate:
  "n \<le> avail w \<Longrightarrow> may_construct k (snd (allocate al n w)) = may_construct k w"
  by (simp add: may_construct_def allocate_fields)

lemma ArrayOf_ctor_ok:
  assumes "n \<le> avail w" and "may_construct n w"
  shows "ArrayOf_ctor n v al w =
           (Inr \<lparr>a_length = n, a_ptr = Suc (brk w), a_d = \<lparr>alloc = al\<rparr>\<rparr>,
            filled (Suc (brk w)) n v (snd (allocate al n w)))"
proof -
  have m: "may_construct n (snd (allocate al n w))"
    using assms by (simp add: may_construct_allocate)
  have a: "allocate al n w = (Inr (Suc (brk w)), snd (allocate al n w))"
    using assms(1) by (simp add: allocate_def)
  show ?thesis
    unfolding ArrayOf_ctor_def uninitialized_fill_n_def
    by (subst a) (simp add: uninit_fill_from_ok [OF m])
qed

lemma ArrayOf_ctor_throw:
  assumes "n \<le> avail w" and "throw_after w = Some t" and "t < n"
  shows "ArrayOf_ctor n v al w =
           (Inl ElementFailure,
            destroy_n (Suc (brk w)) t (filled (Suc (brk w)) t v (snd (allocate al n w))))"
proof -
  have t: "throw_after (snd (allocate al n w)) = Some t"
    using assms by (simp add: allocate_fields)
  have a: "allocate al n w = (Inr (Suc (brk w)), snd (allocate al n w))"
    using assms(1) by (simp add: allocate_def)
  show ?thesis
    unfolding ArrayOf_ctor_def uninitialized_fill_n_def
    by (subst a) (simp add: uninit_fill_from_throw [OF t assms(3)])
qed

lemma ArrayOf_ctor_bad_alloc:
  "avail w < n \<Longrightarrow> ArrayOf_ctor n v al w = (Inl BadAlloc, w)"
  by (simp add: ArrayOf_ctor_def allocate_def)

lemma ArrayOf_ctor_cases:
  "avail w < n \<or> (n \<le> avail w \<and> may_construct n w) \<or>
   (\<exists>t. n \<le> avail w \<and> throw_after w = Some t \<and> t < n)"
  by (cases "throw_after w") (auto simp: may_construct_def)

lemma construct_from_ok:
  "may_construct k w \<Longrightarrow> snd (T args) = args \<Longrightarrow>
     construct_from T args p k w = (Inr (), filled p k (fst (T args)) w)"
proof (induction k arbitrary: p w)
  case 0
  show ?case by simp
next
  case (Suc k)
  from construct_at_ok [OF Suc.prems(1)]
  have c: "construct_at p (fst (T args)) w = (Inr (), filled p (Suc 0) (fst (T args)) w)"
    and m: "may_construct k (filled p (Suc 0) (fst (T args)) w)" by simp_all
  from Suc.prems(2) have T: "T args = (fst (T args), args)"
    by (simp add: prod_eq_iff)
  show ?case
    by (subst construct_from.simps, subst T) (simp add: c Suc.IH [OF m Suc.prems(2)] filled_filled)
qed

lemma values_filled:
  "map (\<lambda>i. mem (filled p n v w) (p + i)) [0..<n] = replicate n (Some v)"
  by (rule nth_equalityI) (simp_all add: filled_def)

lemma swap_n_eq:
  assumes "p + k \<le> q \<or> q + k \<le> p"
    and "\<forall>i<k. mem w (p + i) \<noteq> None \<and> mem w (q + i) \<noteq> None"
  shows "swap_n p k q w =
           Some (w\<lparr>mem := (\<lambda>a. if p \<le> a \<and> a < p + k then mem w (q + (a - p))
                              else if q \<le> a \<and> a < q + k then mem w (p + (a - q))
                              else mem w a)\<rparr>)"
  using assms
proof (induction k arbitrary: p q w)
  case 0
  show ?case by (cases w) simp
next
  case (Suc k)
  from Suc.prems(2) have "mem w (p + 0) \<noteq> None \<and> mem w (q + 0) \<noteq> None"
    by blast
  then obtain x y where x: "mem w p = Some x" and y: "mem w q = Some y"
    by auto
  let ?w1 = "w\<lparr>mem := (mem w)(p \<mapsto> y, q \<mapsto> x)\<rparr>"
  have d: "Suc p + k \<le> Suc q \<or> Suc q + k \<le> Suc p"
    using Suc.prems(1) by auto
  have l: "\<forall>i<k. mem ?w1 (Suc p + i) \<noteq> None \<and> mem ?w1 (Suc q + i) \<noteq> None"
  proof (intro allI impI)
    fix i assume "i < k"
    then have "mem w (p + Suc i) \<noteq> None \<and> mem w (q + Suc i) \<noteq> None"
      using Suc.prems(2) by (metis Suc_less_eq)
    then show "mem ?w1 (Suc p + i) \<noteq> None \<and> mem ?w1 (Suc q + i) \<noteq> None"
      by simp
  qed
  define F where "F = (\<lambda>a. if Suc p \<le> a \<and> a < Suc p + k then mem ?w1 (Suc q + (a - Suc p))
                              else if Suc q \<le> a \<and> a < Suc q + k then mem ?w1 (Suc p + (a - Suc q))
                              else mem ?w1 a)"
  define G where "G = (\<lambda>a. if p \<le> a \<and> a < p + Suc k then mem w (q + (a - p))
                              else if q \<le> a \<and> a < q + Suc k then mem w (p + (a - q))
                              else mem w a)"
  have "swap_n p (Suc k) q w = swap_n (Suc p) k (Suc q) ?w1"
    by (simp add: x y)
  also have "\<dots> = Some (?w1\<lparr>mem := F\<rparr>)"
    unfolding F_def by (rule Suc.IH [OF d l])
  also have "\<dots> = Some (w\<lparr>mem := G\<rparr>)"
  proof -
    have "(if Suc p \<le> a \<and> a < Suc p + k then mem ?w1 (Suc q + (a - Suc p))
           else if Suc q \<le> a \<and> a < Suc q + k then mem ?w1 (Suc p + (a - Suc q))
           else mem ?w1 a) =
          (if p \<le> a \<and> a < p + Suc k then mem w (q + (a - p))
           else if q \<le> a \<and> a < q + Suc k then mem w (p + (a - q))
           else mem w a)" for a
    proof -
      consider "a = p" | "a = q" | "Suc p \<le> a \<and> a < Suc p + k"
        | "Suc q \<le> a \<and> a < Suc q + k"
        | "a \<noteq> p \<and> a \<noteq> q \<and> \<not> (Suc p \<le> a \<and> a < Suc p + k) \<and> \<not> (Suc q \<le> a \<and> a < Suc q + k)"
        by blast
      then show ?thesis
      proof cases
        case 1
        with Suc.prems(1) x y show ?thesis by auto
      next
        case 2
        with Suc.prems(1) x y show ?thesis by auto
      next
        case 3
        then have "Suc q + (a - Suc p) = q + (a - p)" "Suc q + (a - Suc p) \<noteq> p"
          "Suc q + (a - Suc p) \<noteq> q" "p \<le> a" "a < p + Suc k"
          using Suc.prems(1) by auto
        with 3 show ?thesis by simp
      next
        case 4
        then have c: "(Suc p \<le> a \<and> a < Suc p + k) = False" "(p \<le> a \<and> a < p + Suc k) = False"
          "(q \<le> a \<and> a < q + Suc k) = True" "(Suc q \<le> a \<and> a < Suc q + k) = True"
          using Suc.prems(1) by auto
        from 4 have e: "Suc p + (a - Suc q) = p + (a - q)"
          and ne: "Suc p + (a - Suc q) \<noteq> p" "Suc p + (a - Suc q) \<noteq> q"
          using Suc.prems(1) by auto
        from ne have "mem ?w1 (Suc p + (a - Suc q)) = mem w (Suc p + (a - Suc q))"
          by simp
        then have m: "mem ?w1 (Suc p + (a - Suc q)) = mem w (p + (a - q))"
          by (simp only: e)
        show ?thesis by (simp only: c m if_True if_False)
      next
        case 5
        then have "(Suc p \<le> a \<and> a < Suc p + k) = False" "(p \<le> a \<and> a < p + Suc k) = False"
          "(q \<le> a \<and> a < q + Suc k) = False" "(Suc q \<le> a \<and> a < Suc q + k) = False"
          by auto
        moreover from 5 have "mem ?w1 a = mem w a"
          by simp
        ultimately show ?thesis by (simp only: if_True if_False)
      qed
    qed
    then have "F = G"
      unfolding F_def G_def by (intro ext)
    then show ?thesis by simp
  qed
  finally show ?case unfolding G_def .
qed

lemma ArrayOf_move_assign_self:
  "ArrayOf_move_assign a a = (a, a)"
  by (simp add: ArrayOf_move_assign_def Let_def)

lemma values_nth:
  assumes "map (\<lambda>i. m (p + i)) [0..<k] = map Some xs" and "i < k"
  shows "m (p + i) \<noteq> None"
proof -
  from assms(1) have "length xs = k"
    by (metis diff_zero length_map length_upt)
  from assms(1) have "map (\<lambda>i. m (p + i)) [0..<k] ! i = map Some xs ! i"
    by simp
  with assms(2) \<open>length xs = k\<close> show ?thesis
    by simp
qed

section \<open>Construction of an ArrayOf when an element constructor throws\<close>

text \<open>
  C2, as amended. When the constructor of \<^verbatim>\<open>ArrayOf\<close> is left by the exception
  of an element's copy construction, then \<open>t < n\<close> slots had been constructed, in
  index order, and every one of them has been destroyed, in index order, before the
  exception leaves the constructor: the log of the call is the allocation, \<open>t\<close>
  constructions and \<open>t\<close> destructions, and none of the \<open>t\<close> slots holds an object.
  (Nothing is said about the storage: see the counterexample below.)
\<close>

theorem ArrayOf_ctor_failure_destroys_slots:
  assumes "ArrayOf_ctor n v al w = (Inl ElementFailure, w')"
  shows "\<exists>t<n. log w' = log w @ Allocate al (Suc (brk w)) n # map Construct [Suc (brk w)..<Suc (brk w) + t]
                    @ map Destroy [Suc (brk w)..<Suc (brk w) + t]
              \<and> (\<forall>i<t. mem w' (Suc (brk w) + i) = None)"
proof -
  consider (bad_alloc) "avail w < n"
    | (ok) "n \<le> avail w" "may_construct n w"
    | (throw) t where "n \<le> avail w" "throw_after w = Some t" "t < n"
    using ArrayOf_ctor_cases [of w n] by blast
  then show ?thesis
  proof cases
  case bad_alloc
  with assms show ?thesis by (simp add: ArrayOf_ctor_bad_alloc)
next
  case ok
  with assms show ?thesis by (simp add: ArrayOf_ctor_ok)
next
  case (throw t)
  from ArrayOf_ctor_throw [OF throw, of v al] assms
  have w': "w' = destroy_n (Suc (brk w)) t (filled (Suc (brk w)) t v (snd (allocate al n w)))"
    by simp
  have "log w' = log w @ Allocate al (Suc (brk w)) n # map Construct [Suc (brk w)..<Suc (brk w) + t]
                    @ map Destroy [Suc (brk w)..<Suc (brk w) + t]"
    using throw(1) by (simp add: w' destroy_n_eq filled_def allocate_fields)
  moreover have "\<forall>i<t. mem w' (Suc (brk w) + i) = None"
    by (simp add: w' destroy_n_eq)
  ultimately show ?thesis using throw(3) by blast
qed
qed

theorem ArrayOf_ctor_failure_witness:
  "ArrayOf_ctor 3 5 std_allocator (empty_world 64 (Some 1)) = (Inl ElementFailure, snd throwing_ctor)
   \<and> (\<exists>t<3. log (snd throwing_ctor) =
          Allocate std_allocator 1 3 # map Construct [1..<1 + t] @ map Destroy [1..<1 + t]
        \<and> (\<forall>i<t. mem (snd throwing_ctor) (1 + i) = None))"
proof -
  have "fst throwing_ctor = Inl ElementFailure"
    by code_simp
  then have h: "ArrayOf_ctor 3 5 std_allocator (empty_world 64 (Some 1)) = (Inl ElementFailure, snd throwing_ctor)"
    by (simp add: throwing_ctor_def prod_eq_iff)
  from h ArrayOf_ctor_failure_destroys_slots [OF h] show ?thesis
    by (simp add: empty_world_def)
qed

text \<open>
  C2 as stated fails. In \<^verbatim>\<open>ArrayOf<T>(3, v)\<close> with the second copy construction
  throwing, the exception leaves the constructor after the allocation, one construction
  and one destruction: \<^verbatim>\<open>deallocate\<close> is not called, and the block of three slots
  at address \<open>1\<close> is still allocated. No object of type \<^verbatim>\<open>ArrayOf\<close> exists then
  whose destructor could release it.
\<close>

theorem ArrayOf_ctor_failure_leaks_storage:
  "fst throwing_ctor = Inl ElementFailure
   \<and> log (snd throwing_ctor) = [Allocate std_allocator 1 3, Construct 1, Destroy 1]
   \<and> blocks (snd throwing_ctor) 1 = Some 3"
  by code_simp

section \<open>The constructors of ArrayOf\<close>

text \<open>
  When the allocator can serve the request and no copy construction throws, the
  constructor with three arguments, the call with the length alone and the constructor
  taking a length and a value give an array of the requested length whose slots all
  hold the fill value.
\<close>

lemma ArrayOf_ctor_fills:
  assumes "n \<le> avail w" and "may_construct n w"
  shows "\<exists>a w'. ArrayOf_ctor n v al w = (Inr a, w') \<and> ArrayOf_length a = n
           \<and> ArrayOf_values a w' = replicate n (Some v) \<and> alloc (a_d a) = al"
proof -
  let ?a = "\<lparr>a_length = n, a_ptr = Suc (brk w), a_d = \<lparr>alloc = al\<rparr>\<rparr>"
  let ?w' = "filled (Suc (brk w)) n v (snd (allocate al n w))"
  have "ArrayOf_values ?a ?w' = replicate n (Some v)"
    unfolding ArrayOf_values_def ArrayOf_index_def ArrayOf_length_def
    by (simp only: ArrayOf.select_convs values_filled)
  with ArrayOf_ctor_ok [OF assms, of v al] show ?thesis
    by (simp add: ArrayOf_length_def)
qed

lemma ArrayOf_ctor_length_fills:
  assumes "n \<le> avail w" and "may_construct n w"
  shows "\<exists>a w'. ArrayOf_ctor_length dflt n w = (Inr a, w') \<and> ArrayOf_length a = n
           \<and> ArrayOf_values a w' = replicate n (Some dflt)"
  using ArrayOf_ctor_fills [OF assms, of dflt std_allocator]
  by (auto simp: ArrayOf_ctor_length_def)

lemma ArrayOf_ctor_value_fills:
  assumes "n \<le> avail w" and "may_construct n w"
  shows "\<exists>a w'. ArrayOf_ctor_value n v w = (Inr a, w') \<and> ArrayOf_length a = n
           \<and> ArrayOf_values a w' = replicate n (Some v)"
  using ArrayOf_ctor_fills [OF assms, of v std_allocator]
  by (auto simp: ArrayOf_ctor_value_def)

text \<open>
  C3 fails for the overload \<^verbatim>\<open>ArrayOf(length, alloc)\<close>. It delegates with the
  member \<^verbatim>\<open>length_\<close> in place of its parameter, so the length of the array is
  the indeterminate value read from the member, whatever was requested: requested
  with length \<open>3\<close>, the array has length \<open>0\<close> when the member reads as \<open>0\<close> and length
  \<open>7\<close> when it reads as \<open>7\<close>.
\<close>

theorem ArrayOf_ctor_alloc_ignores_length:
  "fst (ArrayOf_ctor_alloc 0 (0::int) 3 std_allocator (empty_world 64 None)) =
     Inr \<lparr>a_length = 0, a_ptr = 1, a_d = \<lparr>alloc = std_allocator\<rparr>\<rparr>
   \<and> fst (ArrayOf_ctor_alloc 7 (0::int) 3 std_allocator (empty_world 64 None)) =
     Inr \<lparr>a_length = 7, a_ptr = 1, a_d = \<lparr>alloc = std_allocator\<rparr>\<rparr>"
  by code_simp

section \<open>Equality\<close>

text \<open>
  On two arrays of the same length whose slots all hold objects, \<^verbatim>\<open>operator==\<close>
  is equality of the two sequences of elements. The length of the right operand is
  never read.
\<close>

lemma equal_n_eq:
  assumes "\<forall>i<k. mem w (p + i) \<noteq> None \<and> mem w (q + i) \<noteq> None"
  shows "equal_n p k q w =
           Some (map (\<lambda>i. mem w (p + i)) [0..<k] = map (\<lambda>i. mem w (q + i)) [0..<k])"
  using assms
proof (induction k arbitrary: p q)
  case 0
  show ?case by simp
next
  case (Suc k)
  from Suc.prems have "mem w (p + 0) \<noteq> None \<and> mem w (q + 0) \<noteq> None"
    by blast
  then obtain x y where x: "mem w p = Some x" and y: "mem w q = Some y"
    by auto
  have l: "\<forall>i<k. mem w (Suc p + i) \<noteq> None \<and> mem w (Suc q + i) \<noteq> None"
  proof (intro allI impI)
    fix i assume "i < k"
    then have "mem w (p + Suc i) \<noteq> None \<and> mem w (q + Suc i) \<noteq> None"
      using Suc.prems by (metis Suc_less_eq)
    then show "mem w (Suc p + i) \<noteq> None \<and> mem w (Suc q + i) \<noteq> None"
      by simp
  qed
  have m: "map (\<lambda>i. mem w (r + i)) [0..<Suc k] = mem w r # map (\<lambda>i. mem w (Suc r + i)) [0..<k]" for r
    by (simp add: map_upt_Suc del: upt_Suc)
  show ?case
    by (simp only: equal_n.simps x y m Suc.IH [OF l]) simp
qed

lemma ArrayOf_eq_same_length:
  assumes "ArrayOf_length a = ArrayOf_length b"
    and "ArrayOf_values a w = map Some xs"
    and "ArrayOf_values b w = map Some ys"
  shows "ArrayOf_eq a b w = Some (xs = ys)"
proof -
  let ?k = "a_length a"
  from assms(1) have kb: "a_length b = ?k"
    by (simp add: ArrayOf_length_def)
  from assms(2) have va: "map (\<lambda>i. mem w (a_ptr a + i)) [0..<?k] = map Some xs"
    by (simp add: ArrayOf_values_def ArrayOf_index_def ArrayOf_length_def)
  from assms(3) kb have vb: "map (\<lambda>i. mem w (a_ptr b + i)) [0..<?k] = map Some ys"
    by (simp add: ArrayOf_values_def ArrayOf_index_def ArrayOf_length_def)
  have l: "\<forall>i<?k. mem w (a_ptr a + i) \<noteq> None \<and> mem w (a_ptr b + i) \<noteq> None"
    using values_nth [OF va] values_nth [OF vb] by blast
  have "ArrayOf_eq a b w = equal_n (a_ptr a) ?k (a_ptr b) w"
    by (simp add: ArrayOf_eq_def std_equal_def ArrayOf_begin_def ArrayOf_end_def)
  also have "\<dots> = Some (map Some xs = map Some ys)"
    by (simp only: equal_n_eq [OF l] va vb)
  also have "\<dots> = Some (xs = ys)"
    by (simp add: inj_map_eq_map)
  finally show ?thesis .
qed

lemma ArrayOf_eq_ignores_rhs_length:
  "ArrayOf_eq lhs (rhs\<lparr>a_length := m\<rparr>) w = ArrayOf_eq lhs rhs w"
  by (simp add: ArrayOf_eq_def ArrayOf_begin_def)

text \<open>
  C1 fails on the code. \<^verbatim>\<open>operator==\<close> calls \<^verbatim>\<open>std::equal\<close> with three
  iterators and never compares the lengths: \<^verbatim>\<open>ArrayOf<int>(3, 5) == ArrayOf<int>(4, 5)\<close>
  is \<^verbatim>\<open>true\<close> (and \<^verbatim>\<open>!=\<close> is \<^verbatim>\<open>false\<close>), the comparison in the other
  order reads the slot after the end of the shorter array, which is undefined, and
  \<^verbatim>\<open>CollectionOf\<close> has the same operator with the same result.
\<close>

theorem operator_eq_ignores_length:
  "fst array_3_5 = Inr \<lparr>a_length = 3, a_ptr = 1, a_d = \<lparr>alloc = std_allocator\<rparr>\<rparr>
   \<and> fst array_4_5 = Inr \<lparr>a_length = 4, a_ptr = 5, a_d = \<lparr>alloc = std_allocator\<rparr>\<rparr>
   \<and> ArrayOf_eq (projr (fst array_3_5)) (projr (fst array_4_5)) (snd array_4_5) = Some True
   \<and> ArrayOf_neq (projr (fst array_3_5)) (projr (fst array_4_5)) (snd array_4_5) = Some False
   \<and> ArrayOf_eq (projr (fst array_4_5)) (projr (fst array_3_5)) (snd array_4_5) = None
   \<and> fst coll_3 = Inr \<lparr>c_length = 3, c_ptr = 1, c_d = \<lparr>alloc = std_allocator\<rparr>\<rparr>
   \<and> fst coll_4 = Inr \<lparr>c_length = 4, c_ptr = 5, c_d = \<lparr>alloc = std_allocator\<rparr>\<rparr>
   \<and> fst coll_3_5 = Inr () \<and> fst coll_4_5 = Inr ()
   \<and> CollectionOf_eq (projr (fst coll_3)) (projr (fst coll_4)) (snd coll_4_5) = Some True"
  by code_simp

section \<open>The destructor of CollectionOf\<close>

text \<open>
  Had the loop of the destructor named the members, it would destroy the slots of
  the collection in index order and then release the block.
\<close>

lemma CollectionOf_dtor_members:
  "log (CollectionOf_dtor (c_length c) (c_ptr c) c w) =
     log w @ map Destroy [c_ptr c..<c_ptr c + c_length c]
       @ [Deallocate (alloc (c_d c)) (c_ptr c) (c_length c)]"
  by (simp add: CollectionOf_dtor_def CollectionOf_Deleter_call_def deallocate_def destroy_n_eq)

text \<open>
  C4 fails on the code as it is written. The loop of the destructor runs over
  \<^verbatim>\<open>n\<close> and \<^verbatim>\<open>ptr\<close>, which are not the members \<^verbatim>\<open>length_\<close> and
  \<^verbatim>\<open>ptr_\<close>. After \<^verbatim>\<open>CollectionOf<int> c(5)\<close> and \<^verbatim>\<open>c.construct(42)\<close>,
  with \<^verbatim>\<open>n\<close> being \<open>0\<close> and \<^verbatim>\<open>ptr\<close> being \<^verbatim>\<open>nullptr\<close>, the destructor
  releases the block and destroys none of the five elements; only where \<^verbatim>\<open>n\<close>
  and \<^verbatim>\<open>ptr\<close> happen to be \<open>5\<close> and the address of the block, it destroys
  them.
\<close>

theorem CollectionOf_dtor_skips_elements:
  "fst coll_5 = Inr \<lparr>c_length = 5, c_ptr = 1, c_d = \<lparr>alloc = std_allocator\<rparr>\<rparr>
   \<and> fst coll_5_42 = Inr ()
   \<and> log (snd coll_5_42) =
       [Allocate std_allocator 1 5, Construct 1, Construct 2, Construct 3, Construct 4, Construct 5]
   \<and> log (CollectionOf_dtor 0 nullptr (projr (fst coll_5)) (snd coll_5_42)) =
       [Allocate std_allocator 1 5, Construct 1, Construct 2, Construct 3, Construct 4, Construct 5,
        Deallocate std_allocator 1 5]
   \<and> log (CollectionOf_dtor 5 1 (projr (fst coll_5)) (snd coll_5_42)) =
       [Allocate std_allocator 1 5, Construct 1, Construct 2, Construct 3, Construct 4, Construct 5,
        Destroy 1, Destroy 2, Destroy 3, Destroy 4, Destroy 5,
        Deallocate std_allocator 1 5]"
  by code_simp

section \<open>CollectionOf::construct\<close>

lemma CollectionOf_ctor_Inr:
  assumes "CollectionOf_ctor n al w0 = (Inr c, w)"
  shows "c = \<lparr>c_length = n, c_ptr = Suc (brk w0), c_d = \<lparr>alloc = al\<rparr>\<rparr>"
    and "throw_after w = throw_after w0"
  using assms by (auto simp: CollectionOf_ctor_def allocate_def split: if_splits)

lemma CollectionOf_construct_ok:
  assumes "may_construct (c_length c) w" and "snd (T args) = args"
  shows "CollectionOf_construct T args c w = (Inr (), filled (c_ptr c) (c_length c) (fst (T args)) w)"
    and "CollectionOf_values c (filled (c_ptr c) (c_length c) (fst (T args)) w) =
           replicate (c_length c) (Some (fst (T args)))"
proof -
  show "CollectionOf_construct T args c w = (Inr (), filled (c_ptr c) (c_length c) (fst (T args)) w)"
    unfolding CollectionOf_construct_def using assms by (rule construct_from_ok [where T = T and args = args])
  show "CollectionOf_values c (filled (c_ptr c) (c_length c) (fst (T args)) w) =
           replicate (c_length c) (Some (fst (T args)))"
    unfolding CollectionOf_values_def CollectionOf_index_def CollectionOf_length_def
    by (simp only: values_filled)
qed

text \<open>
  Where the constructor of \<open>T\<close> leaves the forwarded arguments as it found them
  (\<open>snd (T args) = args\<close>) and none of the \<open>n\<close> constructions throws,
  \<^verbatim>\<open>construct(args...)\<close> on a collection just built with length \<open>n\<close> returns,
  \<^verbatim>\<open>length()\<close> is \<open>n\<close>, and every one of the \<open>n\<close> slots holds the value that
  \<^verbatim>\<open>T(args...)\<close> produces: on this path the function does what is expected of
  it, as the copy fill of \<^verbatim>\<open>ArrayOf\<close> does.
\<close>

lemma CollectionOf_construct_same_value:
  assumes "CollectionOf_ctor n al w0 = (Inr c, w)"
    and "may_construct n w"
    and "snd (T args) = args"
  shows "\<exists>w'. CollectionOf_construct T args c w = (Inr (), w')
           \<and> CollectionOf_length c = n
           \<and> CollectionOf_values c w' = replicate n (Some (fst (T args)))"
proof -
  from CollectionOf_ctor_Inr(1) [OF assms(1)] have n: "c_length c = n"
    by simp
  with assms(2) have m: "may_construct (c_length c) w"
    by simp
  from CollectionOf_construct_ok [where T = T and args = args, OF m assms(3)] n show ?thesis
    by (simp add: CollectionOf_length_def)
qed

lemma CollectionOf_construct_int:
  "CollectionOf_ctor 5 std_allocator (empty_world 64 None) = (Inr (projr (fst coll_5)), snd coll_5)
   \<and> may_construct 5 (snd coll_5)
   \<and> snd (int_copy 42) = 42
   \<and> fst coll_5_42 = Inr ()
   \<and> CollectionOf_length (projr (fst coll_5)) = 5
   \<and> CollectionOf_values (projr (fst coll_5)) (snd coll_5_42) =
        [Some 42, Some 42, Some 42, Some 42, Some 42]"
proof -
  have "fst coll_5 = Inr (projr (fst coll_5))"
    by code_simp
  then have h1: "CollectionOf_ctor 5 std_allocator (empty_world 64 None) = (Inr (projr (fst coll_5)), snd coll_5)"
    by (simp add: coll_5_def prod_eq_iff)
  have h2: "may_construct 5 (snd coll_5)"
    by code_simp
  have h3: "snd (int_copy 42) = 42"
    by (simp add: int_copy_def)
  from CollectionOf_construct_same_value [where T = int_copy and args = 42, OF h1 h2 h3]
  obtain w' where "CollectionOf_construct int_copy 42 (projr (fst coll_5)) (snd coll_5) = (Inr (), w')"
    and "CollectionOf_length (projr (fst coll_5)) = 5"
    and "CollectionOf_values (projr (fst coll_5)) w' = replicate 5 (Some (fst (int_copy 42)))"
    by blast
  then have "fst coll_5_42 = Inr ()" and "CollectionOf_length (projr (fst coll_5)) = 5"
    and "CollectionOf_values (projr (fst coll_5)) (snd coll_5_42) =
        [Some 42, Some 42, Some 42, Some 42, Some 42]"
    by (simp_all add: coll_5_42_def int_copy_def eval_nat_numeral)
  with h1 h2 h3 show ?thesis
    by blast
qed

text \<open>
  C5 fails on the code for an argument given as an rvalue. The loop applies
  \<^verbatim>\<open>std::forward\<close> to the same arguments in every round, so from the second round
  on it constructs from arguments that the first round has moved from. With
  \<^verbatim>\<open>T = std::unique_ptr<X>\<close>, a collection of length \<open>2\<close> and an rvalue argument
  owning the address \<open>7\<close>, the first round moves the pointer into slot \<open>0\<close> and
  leaves the argument null; the second round forwards the same, now null, argument:
  slot \<open>1\<close> holds \<^verbatim>\<open>nullptr\<close>, not the value \<open>7\<close> that a direct construction
  from the argument produces.
\<close>

theorem CollectionOf_construct_moved_from:
  "fst coll_ptrs = Inr \<lparr>c_length = 2, c_ptr = 1, c_d = \<lparr>alloc = std_allocator\<rparr>\<rparr>
   \<and> fst coll_ptrs_moved = Inr ()
   \<and> fst (unique_ptr_move 7) = 7
   \<and> CollectionOf_values (projr (fst coll_ptrs)) (snd coll_ptrs_moved) = [Some 7, Some nullptr]
   \<and> Some nullptr \<noteq> Some (fst (unique_ptr_move 7))"
  by code_simp

section \<open>Moving an ArrayOf\<close>

text \<open>
  What the move assignment does to the two objects: the destination gets the pointer
  and the length of the source, so its slots and elements, and the allocator of the
  source, and its destructor does what the destructor of the source would have done
  before. The source gets the pointer and the length of the destination, but keeps
  its own deleter: its destructor hands the former block of the destination to the
  allocator of the source.
\<close>

lemma ArrayOf_move_assign_exchanges:
  "ArrayOf_data (fst (ArrayOf_move_assign dst src)) = ArrayOf_data src
   \<and> ArrayOf_length (fst (ArrayOf_move_assign dst src)) = ArrayOf_length src
   \<and> ArrayOf_values (fst (ArrayOf_move_assign dst src)) w = ArrayOf_values src w
   \<and> ArrayOf_dtor (fst (ArrayOf_move_assign dst src)) w = ArrayOf_dtor src w
   \<and> ArrayOf_data (snd (ArrayOf_move_assign dst src)) = ArrayOf_data dst
   \<and> ArrayOf_length (snd (ArrayOf_move_assign dst src)) = ArrayOf_length dst
   \<and> ArrayOf_values (snd (ArrayOf_move_assign dst src)) w = ArrayOf_values dst w
   \<and> ArrayOf_dtor (snd (ArrayOf_move_assign dst src)) w =
        ArrayOf_Deleter_call (a_d src) (ArrayOf_data dst) (ArrayOf_length dst) w"
  by (simp add: ArrayOf_move_assign_def Let_def ArrayOf_data_def ArrayOf_length_def
      ArrayOf_values_def ArrayOf_index_def ArrayOf_dtor_def ArrayOf_Deleter_call_def)

text \<open>
  C6 fails on the code. The move assignment exchanges pointer and length but copies
  the allocator one way only, so the source is not left safe for destruction: after
  \<^verbatim>\<open>a = std::move(b)\<close> with \<open>a\<close> built by allocator \<open>1\<close> (block of \<open>3\<close> slots at
  address \<open>1\<close>) and \<open>b\<close> by allocator \<open>2\<close> (block of \<open>4\<close> slots at address \<open>5\<close>), both
  objects hold allocator \<open>2\<close>, and the destructor of the source \<open>b\<close> calls
  \<^verbatim>\<open>deallocate\<close> of allocator \<open>2\<close> on the block that allocator \<open>1\<close> allocated. (The
  other half of the claim, move construction, has no code that could run: the move
  constructor is ill-formed.)
\<close>

theorem ArrayOf_move_assign_wrong_allocator:
  "fst array_alloc1 = Inr \<lparr>a_length = 3, a_ptr = 1, a_d = \<lparr>alloc = 1\<rparr>\<rparr>
   \<and> fst array_alloc2 = Inr \<lparr>a_length = 4, a_ptr = 5, a_d = \<lparr>alloc = 2\<rparr>\<rparr>
   \<and> log (snd array_alloc2) =
        [Allocate 1 1 3, Construct 1, Construct 2, Construct 3,
         Allocate 2 5 4, Construct 5, Construct 6, Construct 7, Construct 8]
   \<and> ArrayOf_move_assign (projr (fst array_alloc1)) (projr (fst array_alloc2)) =
        (\<lparr>a_length = 4, a_ptr = 5, a_d = \<lparr>alloc = 2\<rparr>\<rparr>,
         \<lparr>a_length = 3, a_ptr = 1, a_d = \<lparr>alloc = 2\<rparr>\<rparr>)
   \<and> log (ArrayOf_dtor (snd (ArrayOf_move_assign (projr (fst array_alloc1)) (projr (fst array_alloc2))))
          (snd array_alloc2)) =
        [Allocate 1 1 3, Construct 1, Construct 2, Construct 3,
         Allocate 2 5 4, Construct 5, Construct 6, Construct 7, Construct 8,
         Deallocate 2 1 3]"
  by code_simp

text \<open>
  C10 is about the source of a move construction. The move constructor is ill-formed,
  as described with the definitions of \<^verbatim>\<open>ArrayOf\<close>: the code never produces a
  moved-from source of a move construction, whose length, pointer and destruction
  could be examined.
\<close>

section \<open>Checked access\<close>

text \<open>
  C8. For both containers, \<^verbatim>\<open>at(n)\<close> throws \<^verbatim>\<open>std::out_of_range\<close> exactly
  when \<open>n\<close> is at least the length, and the call then leaves both containers of the
  client and the heap as they were; exactly when \<open>n\<close> is below the length it
  returns the reference that \<^verbatim>\<open>operator[](n)\<close> returns, and the whole call has
  the result and effect of the call of \<^verbatim>\<open>operator[]\<close>.
\<close>

theorem at_checks_range:
  "(ArrayOf_at a n = Inl OutOfRange) = (ArrayOf_length a \<le> n)
   \<and> (ArrayOf_at a n = Inr (ArrayOf_index a n)) = (n < ArrayOf_length a)
   \<and> (ArrayOf_call (Call_at n) (a, b, w) = Some (Inl OutOfRange, a, b, w)) = (ArrayOf_length a \<le> n)
   \<and> (ArrayOf_call (Call_at n) (a, b, w) = ArrayOf_call (Call_index n) (a, b, w)) = (n < ArrayOf_length a)
   \<and> (CollectionOf_at c n = Inl OutOfRange) = (CollectionOf_length c \<le> n)
   \<and> (CollectionOf_at c n = Inr (CollectionOf_index c n)) = (n < CollectionOf_length c)
   \<and> (CollectionOf_call T (CCall_at n) (c, d, cw) = Some (Inl OutOfRange, c, d, cw)) = (CollectionOf_length c \<le> n)
   \<and> (CollectionOf_call T (CCall_at n) (c, d, cw) = CollectionOf_call T (CCall_index n) (c, d, cw))
        = (n < CollectionOf_length c)"
  by (auto simp: ArrayOf_at_def ArrayOf_RangeCheck_def ArrayOf_index_def ArrayOf_length_def
      CollectionOf_at_def CollectionOf_RangeCheck_def CollectionOf_index_def CollectionOf_length_def)

theorem at_checks_range_witness:
  "ArrayOf_at swap_a 3 = Inl OutOfRange
   \<and> ArrayOf_call (Call_at 3) (swap_a, swap_b, swap_world) = Some (Inl OutOfRange, swap_a, swap_b, swap_world)
   \<and> ArrayOf_at swap_a 2 = Inr (ArrayOf_index swap_a 2)
   \<and> ArrayOf_call (Call_at 2) (swap_a, swap_b, swap_world) = ArrayOf_call (Call_index 2) (swap_a, swap_b, swap_world)
   \<and> CollectionOf_at (projr (fst coll_5)) 5 = Inl OutOfRange
   \<and> CollectionOf_at (projr (fst coll_5)) 4 = Inr (CollectionOf_index (projr (fst coll_5)) 4)"
proof -
  have "ArrayOf_length swap_a = 3" "CollectionOf_length (projr (fst coll_5)) = 5"
    by code_simp+
  with at_checks_range [where a = swap_a and n = 3 and b = swap_b and w = swap_world
         and c = "projr (fst coll_5)" and d = "projr (fst coll_5)" and cw = "snd coll_5_42"
         and T = int_copy]
       at_checks_range [where a = swap_a and n = 2 and b = swap_b and w = swap_world
         and c = "projr (fst coll_5)" and d = "projr (fst coll_5)" and cw = "snd coll_5_42"
         and T = int_copy]
       at_checks_range [where a = swap_a and n = 5 and b = swap_b and w = swap_world
         and c = "projr (fst coll_5)" and d = "projr (fst coll_5)" and cw = "snd coll_5_42"
         and T = int_copy]
       at_checks_range [where a = swap_a and n = 4 and b = swap_b and w = swap_world
         and c = "projr (fst coll_5)" and d = "projr (fst coll_5)" and cw = "snd coll_5_42"
         and T = int_copy]
  show ?thesis by simp
qed

section \<open>The length of a container\<close>

text \<open>
  C9, as amended. A call of \<^verbatim>\<open>fill\<close>, \<^verbatim>\<open>swap\<close>, \<^verbatim>\<open>at\<close>,
  \<^verbatim>\<open>operator[]\<close>, \<^verbatim>\<open>data\<close>, \<^verbatim>\<open>begin\<close>, \<^verbatim>\<open>end\<close>, \<^verbatim>\<open>length\<close>,
  \<^verbatim>\<open>operator==\<close> or \<^verbatim>\<open>operator!=\<close> on an \<^verbatim>\<open>ArrayOf\<close>, and a call of
  \<^verbatim>\<open>construct\<close>, \<^verbatim>\<open>at\<close>, \<^verbatim>\<open>operator[]\<close>, \<^verbatim>\<open>data\<close>, \<^verbatim>\<open>begin\<close>,
  \<^verbatim>\<open>end\<close>, \<^verbatim>\<open>length\<close>, \<^verbatim>\<open>operator==\<close> or \<^verbatim>\<open>operator!=\<close> on a
  \<^verbatim>\<open>CollectionOf\<close>, leaves the length of both containers involved as it was. A
  move assignment of an \<^verbatim>\<open>ArrayOf\<close> exchanges the lengths of its destination and
  its source.
\<close>

theorem length_fixed_except_by_move:
  "(op \<noteq> Call_move_assign \<longrightarrow> ArrayOf_call op (a, b, w) = Some (r, a', b', w') \<longrightarrow>
      ArrayOf_length a' = ArrayOf_length a \<and> ArrayOf_length b' = ArrayOf_length b)
   \<and> (ArrayOf_call Call_move_assign (a, b, w) = Some (r, a', b', w') \<longrightarrow>
      ArrayOf_length a' = ArrayOf_length b \<and> ArrayOf_length b' = ArrayOf_length a)
   \<and> (CollectionOf_call T cop (c, d, cw) = Some (cr, c', d', cw') \<longrightarrow>
      CollectionOf_length c' = CollectionOf_length c \<and> CollectionOf_length d' = CollectionOf_length d)"
proof (intro conjI impI)
  assume "op \<noteq> Call_move_assign" and "ArrayOf_call op (a, b, w) = Some (r, a', b', w')"
  then have "a' = a \<and> b' = b"
    by (cases op) (auto split: prod.splits sum.splits option.splits)
  then show "ArrayOf_length a' = ArrayOf_length a" and "ArrayOf_length b' = ArrayOf_length b"
    by simp_all
next
  assume "ArrayOf_call Call_move_assign (a, b, w) = Some (r, a', b', w')"
  then show "ArrayOf_length a' = ArrayOf_length b" and "ArrayOf_length b' = ArrayOf_length a"
    by (auto simp: ArrayOf_move_assign_def Let_def ArrayOf_length_def)
next
  assume "CollectionOf_call T cop (c, d, cw) = Some (cr, c', d', cw')"
  then have "c' = c \<and> d' = d"
    by (cases cop) (auto split: prod.splits sum.splits option.splits)
  then show "CollectionOf_length c' = CollectionOf_length c"
    and "CollectionOf_length d' = CollectionOf_length d"
    by simp_all
qed

theorem length_fixed_witness:
  "Call_fill 7 \<noteq> Call_move_assign
   \<and> ArrayOf_call (Call_fill 7) (swap_a, swap_b, swap_world) =
        Some (Inr Void, swap_a, swap_b, snd (ArrayOf_fill 7 swap_a swap_world))
   \<and> ArrayOf_length swap_a = 3
   \<and> ArrayOf_call Call_move_assign (projr (fst array_3_5), projr (fst array_4_5), snd array_4_5) =
        Some (Inr Void, fst (ArrayOf_move_assign (projr (fst array_3_5)) (projr (fst array_4_5))),
              snd (ArrayOf_move_assign (projr (fst array_3_5)) (projr (fst array_4_5))), snd array_4_5)
   \<and> ArrayOf_length (fst (ArrayOf_move_assign (projr (fst array_3_5)) (projr (fst array_4_5)))) =
        ArrayOf_length (projr (fst array_4_5))
   \<and> ArrayOf_length (snd (ArrayOf_move_assign (projr (fst array_3_5)) (projr (fst array_4_5)))) =
        ArrayOf_length (projr (fst array_3_5))
   \<and> CollectionOf_call int_copy (CCall_construct 42) (projr (fst coll_5), projr (fst coll_5), snd coll_5) =
        Some (Inr Void, projr (fst coll_5), projr (fst coll_5), snd coll_5_42)
   \<and> CollectionOf_length (projr (fst coll_5)) = 5"
proof -
  have h1: "Call_fill (7::int) \<noteq> Call_move_assign"
    by simp
  have "fst (ArrayOf_fill (7::int) swap_a swap_world) = Inr ()"
    by code_simp
  then have h2: "ArrayOf_call (Call_fill 7) (swap_a, swap_b, swap_world) =
        Some (Inr Void, swap_a, swap_b, snd (ArrayOf_fill 7 swap_a swap_world))"
    by (cases "ArrayOf_fill 7 swap_a swap_world") simp
  have h3: "ArrayOf_call Call_move_assign (projr (fst array_3_5), projr (fst array_4_5), snd array_4_5) =
        Some (Inr Void, fst (ArrayOf_move_assign (projr (fst array_3_5)) (projr (fst array_4_5))),
              snd (ArrayOf_move_assign (projr (fst array_3_5)) (projr (fst array_4_5))), snd array_4_5)"
    by (simp split: prod.splits)
  have "fst coll_5_42 = Inr ()"
    by code_simp
  then have h4: "CollectionOf_call int_copy (CCall_construct 42) (projr (fst coll_5), projr (fst coll_5), snd coll_5) =
        Some (Inr Void, projr (fst coll_5), projr (fst coll_5), snd coll_5_42)"
    unfolding coll_5_42_def
    by (cases "CollectionOf_construct int_copy 42 (projr (fst coll_5)) (snd coll_5)") simp
  have l: "ArrayOf_length swap_a = 3" "CollectionOf_length (projr (fst coll_5)) = 5"
    by code_simp+
  from length_fixed_except_by_move [where op = "Call_fill 7" and a = swap_a and b = swap_b
      and w = swap_world and r = "Inr Void" and a' = swap_a and b' = swap_b
      and w' = "snd (ArrayOf_fill 7 swap_a swap_world)"
      and T = int_copy and cop = "CCall_construct 42" and c = "projr (fst coll_5)"
      and d = "projr (fst coll_5)" and cw = "snd coll_5" and cr = "Inr Void"
      and c' = "projr (fst coll_5)" and d' = "projr (fst coll_5)" and cw' = "snd coll_5_42"]
    length_fixed_except_by_move [where op = "Call_fill 7"
      and a = "projr (fst array_3_5)" and b = "projr (fst array_4_5)"
      and w = "snd array_4_5" and r = "Inr Void"
      and a' = "fst (ArrayOf_move_assign (projr (fst array_3_5)) (projr (fst array_4_5)))"
      and b' = "snd (ArrayOf_move_assign (projr (fst array_3_5)) (projr (fst array_4_5)))"
      and w' = "snd array_4_5"
      and T = int_copy and cop = "CCall_construct 42" and c = "projr (fst coll_5)"
      and d = "projr (fst coll_5)" and cw = "snd coll_5" and cr = "Inr Void"
      and c' = "projr (fst coll_5)" and d' = "projr (fst coll_5)" and cw' = "snd coll_5_42"]
    h1 h2 h3 h4 l
  show ?thesis by simp
qed

text \<open>
  C9 as stated fails for the move assignment: from the array built with length \<open>4\<close>
  to the array built with length \<open>3\<close>, it leaves the destination with length \<open>4\<close> and
  the source with length \<open>3\<close>.
\<close>

theorem move_changes_length:
  "ArrayOf_length (projr (fst array_3_5)) = 3
   \<and> ArrayOf_length (projr (fst array_4_5)) = 4
   \<and> ArrayOf_call Call_move_assign (projr (fst array_3_5), projr (fst array_4_5), snd array_4_5) =
        Some (Inr Void,
              \<lparr>a_length = 4, a_ptr = 5, a_d = \<lparr>alloc = std_allocator\<rparr>\<rparr>,
              \<lparr>a_length = 3, a_ptr = 1, a_d = \<lparr>alloc = std_allocator\<rparr>\<rparr>,
              snd array_4_5)"
proof -
  have "fst array_3_5 = Inr \<lparr>a_length = 3, a_ptr = 1, a_d = \<lparr>alloc = std_allocator\<rparr>\<rparr>"
    and "fst array_4_5 = Inr \<lparr>a_length = 4, a_ptr = 5, a_d = \<lparr>alloc = std_allocator\<rparr>\<rparr>"
    by code_simp+
  then show ?thesis
    by (simp add: ArrayOf_length_def ArrayOf_move_assign_def Let_def)
qed

section \<open>ArrayOf::swap\<close>

text \<open>
  C7. Let \<open>a\<close> and \<open>b\<close> have the same length and storage that does not overlap, with
  the elements \<open>xs\<close> in \<open>a\<close> and \<open>ys\<close> in \<open>b\<close>. Then \<^verbatim>\<open>a.swap(b)\<close> returns, and
  afterwards \<open>a\<close> holds \<open>ys\<close> and \<open>b\<close> holds \<open>xs\<close>, position by position, while the
  two containers themselves (pointer, length and deleter of each) are as before: the
  exchange is one of values in the slots, not of storage.
\<close>

theorem ArrayOf_swap_exchanges_values:
  assumes "ArrayOf_length a = ArrayOf_length b"
    and "ArrayOf_end a \<le> ArrayOf_begin b \<or> ArrayOf_end b \<le> ArrayOf_begin a"
    and "ArrayOf_values a w = map Some xs"
    and "ArrayOf_values b w = map Some ys"
  shows "\<exists>w'. ArrayOf_call Call_swap (a, b, w) = Some (Inr Void, a, b, w')
           \<and> ArrayOf_values a w' = map Some ys
           \<and> ArrayOf_values b w' = map Some xs"
proof -
  let ?k = "a_length a"
  let ?p = "a_ptr a"
  let ?q = "a_ptr b"
  let ?G = "\<lambda>x. if ?p \<le> x \<and> x < ?p + ?k then mem w (?q + (x - ?p))
                 else if ?q \<le> x \<and> x < ?q + ?k then mem w (?p + (x - ?q))
                 else mem w x"
  from assms(1) have kb: "a_length b = ?k"
    by (simp add: ArrayOf_length_def)
  from assms(2) kb have d: "?p + ?k \<le> ?q \<or> ?q + ?k \<le> ?p"
    by (simp add: ArrayOf_end_def ArrayOf_begin_def)
  from assms(3) have va: "map (\<lambda>i. mem w (?p + i)) [0..<?k] = map Some xs"
    by (simp add: ArrayOf_values_def ArrayOf_index_def ArrayOf_length_def)
  from assms(4) kb have vb: "map (\<lambda>i. mem w (?q + i)) [0..<?k] = map Some ys"
    by (simp add: ArrayOf_values_def ArrayOf_index_def ArrayOf_length_def)
  have l: "\<forall>i<?k. mem w (?p + i) \<noteq> None \<and> mem w (?q + i) \<noteq> None"
    using values_nth [OF va] values_nth [OF vb] by blast
  have s: "ArrayOf_swap a b w = Some (w\<lparr>mem := ?G\<rparr>)"
    unfolding ArrayOf_swap_def swap_ranges_def ArrayOf_begin_def ArrayOf_end_def
    using swap_n_eq [OF d l] by simp
  have "map (\<lambda>i. ?G (?p + i)) [0..<?k] = map (\<lambda>i. mem w (?q + i)) [0..<?k]"
    by (rule map_cong) simp_all
  with vb have a': "ArrayOf_values a (w\<lparr>mem := ?G\<rparr>) = map Some ys"
    by (simp add: ArrayOf_values_def ArrayOf_index_def ArrayOf_length_def)
  have "map (\<lambda>i. ?G (?q + i)) [0..<?k] = map (\<lambda>i. mem w (?p + i)) [0..<?k]"
  proof (rule map_cong)
    fix i assume "i \<in> set [0..<?k]"
    then have "i < ?k" by simp
    with d show "?G (?q + i) = mem w (?p + i)"
      by auto
  qed simp
  with va kb have b': "ArrayOf_values b (w\<lparr>mem := ?G\<rparr>) = map Some xs"
    by (simp add: ArrayOf_values_def ArrayOf_index_def ArrayOf_length_def)
  from s a' b' show ?thesis
    by simp
qed

theorem ArrayOf_swap_witness:
  "ArrayOf_length swap_a = ArrayOf_length swap_b
   \<and> ArrayOf_end swap_a \<le> ArrayOf_begin swap_b
   \<and> ArrayOf_values swap_a swap_world = [Some 1, Some 2, Some 3]
   \<and> ArrayOf_values swap_b swap_world = [Some 9, Some 8, Some 7]
   \<and> ArrayOf_call Call_swap (swap_a, swap_b, swap_world) =
        Some (Inr Void, swap_a, swap_b, the (ArrayOf_swap swap_a swap_b swap_world))
   \<and> ArrayOf_values swap_a (the (ArrayOf_swap swap_a swap_b swap_world)) = [Some 9, Some 8, Some 7]
   \<and> ArrayOf_values swap_b (the (ArrayOf_swap swap_a swap_b swap_world)) = [Some 1, Some 2, Some 3]"
proof -
  have h1: "ArrayOf_length swap_a = ArrayOf_length swap_b"
    and h2: "ArrayOf_end swap_a \<le> ArrayOf_begin swap_b"
    and h3: "ArrayOf_values swap_a swap_world = map Some [1, 2, 3]"
    and h4: "ArrayOf_values swap_b swap_world = map Some [9, 8, 7]"
    by code_simp+
  from h2 have h2': "ArrayOf_end swap_a \<le> ArrayOf_begin swap_b \<or> ArrayOf_end swap_b \<le> ArrayOf_begin swap_a"
    by simp
  from ArrayOf_swap_exchanges_values [OF h1 h2' h3 h4]
  obtain w' where c: "ArrayOf_call Call_swap (swap_a, swap_b, swap_world) = Some (Inr Void, swap_a, swap_b, w')"
    and a: "ArrayOf_values swap_a w' = map Some [9, 8, 7]"
    and b: "ArrayOf_values swap_b w' = map Some [1, 2, 3]"
    by blast
  from c have "ArrayOf_swap swap_a swap_b swap_world = Some w'"
    by (simp split: option.splits)
  then have "the (ArrayOf_swap swap_a swap_b swap_world) = w'"
    by simp
  with h1 h2 h3 h4 c a b show ?thesis
    by simp
qed

end
